theory Spec2Isabelle
  imports Main "HOL-Library.Word" "HOL-Library.Signed_Division"
begin

section \<open>The simulated beacon of eth/catalyst/simulated\_beacon.go\<close>

text \<open>
  A shallow embedding of \<^verbatim>\<open>eth/catalyst/simulated_beacon.go\<close>: the withdrawal queue,
  the finality rule, the payload version switch, the seal cycle \<^verbatim>\<open>sealBlock\<close> and the
  manual entry points \<^verbatim>\<open>Commit\<close>, \<^verbatim>\<open>Fork\<close> and \<^verbatim>\<open>AdjustTime\<close>.

  The execution engine, the chain and the transaction pool are collaborators that the file
  only calls. They are a record of operations over an engine state of any type \<open>'e\<close>; every
  call takes the engine state and the calls that can change it return the new one. Go's
  \<^verbatim>\<open>uint64\<close> is \<open>64 word\<close>, a \<^verbatim>\<open>common.Hash\<close> is \<open>256 word\<close>, a pointer that may be nil
  is an \<open>option\<close>, and a panic is a result of its own, apart from a returned error.
\<close>

subsection \<open>Data\<close>

type_synonym u64 = "64 word"
type_synonym Hash = "256 word"
type_synonym Address = "160 word"
type_synonym bytes = "8 word list"
type_synonym PayloadID = "64 word"

text \<open>\<^verbatim>\<open>const devEpochLength = 32\<close>\<close>

definition devEpochLength :: u64 where
  "devEpochLength = 32"

text \<open>Go errors: \<^verbatim>\<open>errors.New(s)\<close>, and \<^verbatim>\<open>fmt.Errorf(s + "%w", err)\<close> wrapping another error.\<close>

datatype error = ErrorString string | Wrapped string error

text \<open>The run-time panics the file can raise.\<close>

datatype panic = NilPointerDereference | SliceBoundsOutOfRange | PanicString string

text \<open>
  What a Go function call comes to: it returns its value (for a function that only returns
  an \<^verbatim>\<open>error\<close>, the value \<open>()\<close> stands for nil), it returns an error, or it panics.
\<close>

datatype 'a result = Ok 'a | Err error | Panic panic

record Withdrawal =
  Index :: u64
  Validator :: u64
  WAddress :: Address
  Amount :: u64

record ForkchoiceStateV1 =
  HeadBlockHash :: Hash
  SafeBlockHash :: Hash
  FinalizedBlockHash :: Hash

text \<open>
  \<^verbatim>\<open>types.Header\<close>, with the three things the file reads of it: \<^verbatim>\<open>Hash()\<close>, \<^verbatim>\<open>Number\<close>
  (a \<^verbatim>\<open>*big.Int\<close>) and \<^verbatim>\<open>Time\<close>. A \<^verbatim>\<open>types.Block\<close> is read only through \<^verbatim>\<open>Hash()\<close>.
\<close>

record Header =
  hHash :: Hash
  Number :: int
  Time :: u64

record Block =
  bHash :: Hash
  bHeader :: Header

text \<open>\<^verbatim>\<open>big.Int.Uint64\<close>: the low 64 bits of the absolute value.\<close>

definition Uint64 :: "int \<Rightarrow> u64" where
  "Uint64 x = word_of_int \<bar>x\<bar>"

subsection \<open>withdrawalQueue\<close>

text \<open>
  The queue is its \<^verbatim>\<open>pending\<close> slice. \<^verbatim>\<open>add\<close> appends and returns nil; the event it sends
  to the feed is not part of the queue's contents.
\<close>

type_synonym withdrawalQueue = "Withdrawal list"

definition add :: "withdrawalQueue \<Rightarrow> Withdrawal \<Rightarrow> error option \<times> withdrawalQueue" where
  "add w withdrawal = (None, w @ [withdrawal])"

text \<open>
  \<^verbatim>\<open>pop(count int)\<close>: \<^verbatim>\<open>count = min(count, len(w.pending))\<close>, then the slice expressions
  \<^verbatim>\<open>w.pending[0:count]\<close> and \<^verbatim>\<open>w.pending[count:]\<close>, which panic on a negative bound.
  The result is the popped slice and the queue that is left.
\<close>

definition pop :: "withdrawalQueue \<Rightarrow> int \<Rightarrow> (Withdrawal list \<times> withdrawalQueue) result" where
  "pop w count0 =
     (let count = min count0 (int (length w)) in
      if count < 0 then Panic SliceBoundsOutOfRange
      else Ok (take (nat count) w, drop (nat count) w))"

text \<open>A run of queue operations; it collects what each \<^verbatim>\<open>pop\<close> returned and what was added.\<close>

datatype queueOp = QAdd Withdrawal | QPop nat

record queueRun =
  queue :: withdrawalQueue
  popped :: "Withdrawal list list"
  added :: "Withdrawal list"

fun runQueue :: "queueRun \<Rightarrow> queueOp list \<Rightarrow> queueRun result" where
  "runQueue r [] = Ok r"
| "runQueue r (QAdd x # ops) =
     runQueue (r\<lparr>queue := snd (add (queue r) x), added := added r @ [x]\<rparr>) ops"
| "runQueue r (QPop n # ops) =
     (case pop (queue r) (int n) of
        Ok (out, rest) \<Rightarrow> runQueue (r\<lparr>queue := rest, popped := popped r @ [out]\<rparr>) ops
      | Err e \<Rightarrow> Err e
      | Panic p \<Rightarrow> Panic p)"

definition emptyRun :: queueRun where
  "emptyRun = \<lparr>queue = [], popped = [], added = []\<rparr>"

subsection \<open>The finality rule\<close>

text \<open>
  The number \<^verbatim>\<open>finalizedBlockHash\<close> computes before it looks the block up; all arithmetic
  is \<^verbatim>\<open>uint64\<close>.
\<close>

definition finalizedNumber :: "u64 \<Rightarrow> u64" where
  "finalizedNumber number =
     (if number mod devEpochLength = 0 then number
      else (number - 1) div devEpochLength * devEpochLength)"

subsection \<open>The engine API types\<close>

text \<open>
  Modelled from the spec: the packages \<^verbatim>\<open>beacon/engine\<close> and \<^verbatim>\<open>params/forks\<close> are not among
  the sources; their types and constants are declared here as the file uses them. The spec
  gives the interface
  \<^verbatim>\<open>forkchoiceUpdated(state, attributes?, version, noTxPoolNotify) -> (status in {VALID,SYNCING,...}, payloadID?)\<close>,
  \<^verbatim>\<open>getPayload(id, fullResult) -> { executionPayload, blobsBundle?, requests? }\<close> and
  \<^verbatim>\<open>newPayload(payload, blobHashes[], beaconRoot?, requests[], noTxPoolNotify) -> status\<close>;
  a status is a string, the payload versions are ordered "base, withdrawals-enabled,
  blob-enabled", and the "syncing" response carries the status SYNCING and nothing else.
\<close>

datatype Fork = Paris | Shanghai | Cancun | Prague | OtherFork nat

datatype PayloadVersion = PayloadV1 | PayloadV2 | PayloadV3

fun versionNumber :: "PayloadVersion \<Rightarrow> nat" where
  "versionNumber PayloadV1 = 1"
| "versionNumber PayloadV2 = 2"
| "versionNumber PayloadV3 = 3"

definition VALID :: string where
  "VALID = ''VALID''"

definition SYNCING :: string where
  "SYNCING = ''SYNCING''"

record PayloadAttributes =
  Timestamp :: u64
  Random :: Hash
  SuggestedFeeRecipient :: Address
  Withdrawals :: "Withdrawal list"
  BeaconRoot :: "Hash option"

record PayloadStatusV1 =
  Status :: string
  Witness :: "bytes option"
  LatestValidHash :: "Hash option"
  ValidationError :: "string option"

record ForkChoiceResponse =
  PayloadStatus :: PayloadStatusV1
  PayloadID :: "PayloadID option"

definition STATUS_SYNCING :: ForkChoiceResponse where
  "STATUS_SYNCING =
     \<lparr>PayloadStatus = \<lparr>Status = SYNCING, Witness = None, LatestValidHash = None,
                        ValidationError = None\<rparr>,
      PayloadID = None\<rparr>"

text \<open>
  \<^verbatim>\<open>engine.ExecutableData\<close>, with the fields the file reads (\<^verbatim>\<open>Number\<close>, \<^verbatim>\<open>Timestamp\<close>,
  \<^verbatim>\<open>BlockHash\<close>) and the parent hash and fee recipient, which identify the block; the
  payload goes to \<^verbatim>\<open>newPayload\<close> as it came from \<^verbatim>\<open>getPayload\<close>.
\<close>

record ExecutableData =
  ParentHash :: Hash
  FeeRecipient :: Address
  edNumber :: u64
  edTimestamp :: u64
  BlockHash :: Hash

record BlobsBundleV1 =
  Commitments :: "bytes list"

record ExecutionPayloadEnvelope =
  ExecutionPayload :: ExecutableData
  BlobsBundle :: "BlobsBundleV1 option"
  Requests :: "bytes list option"

subsection \<open>The collaborators\<close>

text \<open>
  What the file calls on \<^verbatim>\<open>c.eth\<close> and \<^verbatim>\<open>c.engineAPI\<close>, over an engine state \<open>'e\<close>:
  the chain queries read the state, the other calls also return the state they leave.
  \<^verbatim>\<open>LatestFork\<close> is the chain configuration, \<^verbatim>\<open>TxPoolPending\<close> the length of the map
  that \<^verbatim>\<open>TxPool().Pending\<close> returns, \<^verbatim>\<open>CalcBlobHashV1\<close> the hash of a 48-byte commitment.
\<close>

record 'e Backend =
  CurrentBlock :: "'e \<Rightarrow> Header option"
  GetBlockByNumber :: "'e \<Rightarrow> u64 \<Rightarrow> Block option"
  GetBlockByHash :: "'e \<Rightarrow> Hash \<Rightarrow> Block option"
  SetCanonical :: "'e \<Rightarrow> Block \<Rightarrow> error option \<times> 'e"
  LatestFork :: "u64 \<Rightarrow> Fork"
  TxPoolSync :: "'e \<Rightarrow> error option \<times> 'e"
  TxPoolPending :: "'e \<Rightarrow> nat"
  forkchoiceUpdated :: "'e \<Rightarrow> ForkchoiceStateV1 \<Rightarrow> PayloadAttributes option \<Rightarrow> PayloadVersion
                          \<Rightarrow> bool \<Rightarrow> (error + ForkChoiceResponse) \<times> 'e"
  getPayload :: "'e \<Rightarrow> PayloadID \<Rightarrow> bool \<Rightarrow> (error + ExecutionPayloadEnvelope) \<times> 'e"
  newPayload :: "'e \<Rightarrow> ExecutableData \<Rightarrow> Hash list option \<Rightarrow> Hash option \<Rightarrow> bytes list option
                   \<Rightarrow> bool \<Rightarrow> (error + PayloadStatusV1) \<times> 'e"
  CalcBlobHashV1 :: "bytes \<Rightarrow> Hash"

text \<open>The calls that can change the engine, the pool or the chain, as they are issued.\<close>

datatype EngineCall =
    CallTxPoolSync
  | CallForkchoiceUpdated ForkchoiceStateV1 "PayloadAttributes option" PayloadVersion
  | CallGetPayload PayloadID bool
  | CallNewPayload ExecutableData "Hash list option" "Hash option" "bytes list option"
  | CallSetCanonical Block

subsection \<open>SimulatedBeacon\<close>

record SimulatedBeacon =
  period :: u64
  withdrawals :: withdrawalQueue
  feeRecipient :: Address
  curForkchoiceState :: ForkchoiceStateV1
  lastBlockTime :: u64

text \<open>The driver, the engine it drives and the calls issued so far.\<close>

record 'e world =
  beacon :: SimulatedBeacon
  engine :: "'e"
  calls :: "EngineCall list"

definition called :: "EngineCall \<Rightarrow> 'e \<Rightarrow> 'e world \<Rightarrow> 'e world" where
  "called c e w = w\<lparr>engine := e, calls := calls w @ [c]\<rparr>"

text \<open>\<^verbatim>\<open>payloadVersion(config, time)\<close>; the configuration is its \<^verbatim>\<open>LatestFork\<close>.\<close>

definition payloadVersion :: "(u64 \<Rightarrow> Fork) \<Rightarrow> u64 \<Rightarrow> PayloadVersion result" where
  "payloadVersion config time =
     (case config time of
        Prague \<Rightarrow> Ok PayloadV3
      | Cancun \<Rightarrow> Ok PayloadV3
      | Paris \<Rightarrow> Ok PayloadV2
      | Shanghai \<Rightarrow> Ok PayloadV2
      | OtherFork _ \<Rightarrow>
          Panic (PanicString ''invalid fork, simulated beacon needs to be started post-merge''))"

text \<open>\<^verbatim>\<open>const maxPeriod = uint64(math.MaxInt64 / time.Second)\<close>\<close>

definition maxPeriod :: u64 where
  "maxPeriod = 9223372036"

text \<open>
  \<^verbatim>\<open>NewSimulatedBeacon\<close>. \<^verbatim>\<open>block.Hash()\<close> on a nil header panics. The result comes with the
  engine state and the calls issued.
\<close>

definition NewSimulatedBeacon ::
    "'e Backend \<Rightarrow> u64 \<Rightarrow> Address \<Rightarrow> 'e \<Rightarrow> SimulatedBeacon result \<times> 'e \<times> EngineCall list" where
  "NewSimulatedBeacon ops period0 feeRecipient0 e =
     (case CurrentBlock ops e of
        None \<Rightarrow> (Panic NilPointerDereference, e, [])
      | Some block \<Rightarrow>
          let current = \<lparr>HeadBlockHash = hHash block, SafeBlockHash = hHash block,
                         FinalizedBlockHash = hHash block\<rparr>;
              sim = \<lparr>period = min period0 maxPeriod, withdrawals = [],
                     feeRecipient = feeRecipient0, curForkchoiceState = current,
                     lastBlockTime = Time block\<rparr>
          in if Number block = 0 then
               (case payloadVersion (LatestFork ops) (Time block) of
                  Panic p \<Rightarrow> (Panic p, e, [])
                | Err err \<Rightarrow> (Err err, e, [])
                | Ok version \<Rightarrow>
                    (case forkchoiceUpdated ops e current None version False of
                       (Inl err, e') \<Rightarrow> (Err err, e', [CallForkchoiceUpdated current None version])
                     | (Inr _, e') \<Rightarrow> (Ok sim, e', [CallForkchoiceUpdated current None version])))
             else (Ok sim, e, []))"

definition setFeeRecipient :: "SimulatedBeacon \<Rightarrow> Address \<Rightarrow> SimulatedBeacon" where
  "setFeeRecipient c feeRecipient0 = c\<lparr>feeRecipient := feeRecipient0\<rparr>"

text \<open>\<^verbatim>\<open>finalizedBlockHash\<close>: nil when the chain has no block at the finalized number.\<close>

definition finalizedBlockHash :: "'e Backend \<Rightarrow> 'e \<Rightarrow> u64 \<Rightarrow> Hash option" where
  "finalizedBlockHash ops e number =
     (case GetBlockByNumber ops e (finalizedNumber number) of
        Some finalizedBlock \<Rightarrow> Some (bHash finalizedBlock)
      | None \<Rightarrow> None)"

definition setCurrentState :: "SimulatedBeacon \<Rightarrow> Hash \<Rightarrow> Hash \<Rightarrow> SimulatedBeacon" where
  "setCurrentState c headHash finalizedHash =
     c\<lparr>curForkchoiceState :=
          \<lparr>HeadBlockHash = headHash, SafeBlockHash = headHash,
           FinalizedBlockHash = finalizedHash\<rparr>\<rparr>"

subsection \<open>sealBlock\<close>

text \<open>Lines 170 to 172: the timestamp the block is built with.\<close>

definition sealTimestamp :: "SimulatedBeacon \<Rightarrow> u64 \<Rightarrow> u64" where
  "sealTimestamp c timestamp =
     (if timestamp \<le> lastBlockTime c then lastBlockTime c + 1 else timestamp)"

text \<open>
  Lines 177 to 181, "Reset to CurrentBlock in case of the chain was rewound". The header is
  dereferenced (\<^verbatim>\<open>header.Hash()\<close>), and so is the result of \<^verbatim>\<open>finalizedBlockHash\<close>
  (\<^verbatim>\<open>*finalizedHash\<close>), with no nil check: a nil there panics.
\<close>

definition resyncGuard :: "'e Backend \<Rightarrow> 'e world \<Rightarrow> 'e world result" where
  "resyncGuard ops w =
     (case CurrentBlock ops (engine w) of
        None \<Rightarrow> Panic NilPointerDereference
      | Some header \<Rightarrow>
          if HeadBlockHash (curForkchoiceState (beacon w)) \<noteq> hHash header then
            (case finalizedBlockHash ops (engine w) (Uint64 (Number header)) of
               None \<Rightarrow> Panic NilPointerDereference
             | Some finalizedHash \<Rightarrow>
                 Ok (w\<lparr>beacon := setCurrentState (beacon w) (hHash header) finalizedHash\<rparr>))
          else Ok w)"

text \<open>Lines 223 to 232: the finalized hash for the payload that was built.\<close>

definition payloadFinalizedHash :: "'e Backend \<Rightarrow> 'e \<Rightarrow> ExecutableData \<Rightarrow> Hash result" where
  "payloadFinalizedHash ops e payload =
     (if edNumber payload mod devEpochLength = 0 then Ok (BlockHash payload)
      else
        (case finalizedBlockHash ops e (edNumber payload) of
           None \<Rightarrow>
             Err (ErrorString ''chain rewind interrupted calculation of finalized block hash'')
         | Some fh \<Rightarrow> Ok fh))"

text \<open>
  Lines 245 to 252: the loop over the commitments of the blobs bundle; a
  \<^verbatim>\<open>kzg4844.Commitment\<close> is 48 bytes long.
\<close>

fun blobHashesOf :: "(bytes \<Rightarrow> Hash) \<Rightarrow> bytes list \<Rightarrow> Hash list \<Rightarrow> Hash list result" where
  "blobHashesOf calc [] blobHashes = Ok blobHashes"
| "blobHashesOf calc (commit # rest) blobHashes =
     (if length commit \<noteq> 48 then Err (ErrorString ''invalid commitment length'')
      else blobHashesOf calc rest (blobHashes @ [calc commit]))"

text \<open>
  Lines 234 to 256, "Compute post-shanghai fields": \<^verbatim>\<open>blobHashes\<close>, \<^verbatim>\<open>beaconRoot\<close> and
  \<^verbatim>\<open>requests\<close>, each nil unless the version is above \<^verbatim>\<open>PayloadV2\<close>.
\<close>

definition postShanghaiFields ::
    "'e Backend \<Rightarrow> PayloadVersion \<Rightarrow> ExecutionPayloadEnvelope
       \<Rightarrow> (Hash list option \<times> Hash option \<times> bytes list option) result" where
  "postShanghaiFields ops version envelope =
     (if versionNumber version > versionNumber PayloadV2 then
        (case (case BlobsBundle envelope of
                 None \<Rightarrow> Ok []
               | Some bundle \<Rightarrow> blobHashesOf (CalcBlobHashV1 ops) (Commitments bundle) []) of
           Ok blobHashes \<Rightarrow> Ok (Some blobHashes, Some 0, Requests envelope)
         | Err err \<Rightarrow> Err err
         | Panic p \<Rightarrow> Panic p)
      else Ok (None, None, None))"

text \<open>Lines 221 to 270: from the envelope that \<^verbatim>\<open>getPayload\<close> returned to the end.\<close>

definition sealPayload ::
    "'e Backend \<Rightarrow> PayloadVersion \<Rightarrow> ExecutionPayloadEnvelope \<Rightarrow> 'e world \<Rightarrow> unit result \<times> 'e world" where
  "sealPayload ops version envelope w =
     (let payload = ExecutionPayload envelope in
      case payloadFinalizedHash ops (engine w) payload of
        Err err \<Rightarrow> (Err err, w)
      | Panic p \<Rightarrow> (Panic p, w)
      | Ok finalizedHash \<Rightarrow>
          (case postShanghaiFields ops version envelope of
             Err err \<Rightarrow> (Err err, w)
           | Panic p \<Rightarrow> (Panic p, w)
           | Ok (blobHashes, beaconRoot, requests) \<Rightarrow>
               (case newPayload ops (engine w) payload blobHashes beaconRoot requests False of
                  (Inl err, e1) \<Rightarrow>
                    (Err err, called (CallNewPayload payload blobHashes beaconRoot requests) e1 w)
                | (Inr _, e1) \<Rightarrow>
                    let w1 = called (CallNewPayload payload blobHashes beaconRoot requests) e1 w;
                        w2 = w1\<lparr>beacon := setCurrentState (beacon w1) (BlockHash payload)
                                             finalizedHash\<rparr>;
                        state = curForkchoiceState (beacon w2)
                    in (case forkchoiceUpdated ops (engine w2) state None version False of
                          (Inl err, e2) \<Rightarrow>
                            (Err err, called (CallForkchoiceUpdated state None version) e2 w2)
                        | (Inr _, e2) \<Rightarrow>
                            let w3 = called (CallForkchoiceUpdated state None version) e2 w2
                            in (Ok (),
                                w3\<lparr>beacon := (beacon w3)\<lparr>lastBlockTime := edTimestamp payload\<rparr>\<rparr>)))))"

text \<open>The attributes of lines 197 to 203; \<^verbatim>\<open>random\<close> is what \<^verbatim>\<open>rand.Read\<close> drew.\<close>

definition sealAttributes ::
    "u64 \<Rightarrow> Address \<Rightarrow> Withdrawal list \<Rightarrow> Hash \<Rightarrow> PayloadAttributes" where
  "sealAttributes timestamp feeRecipient0 withdrawals0 random =
     \<lparr>Timestamp = timestamp, Random = random, SuggestedFeeRecipient = feeRecipient0,
      Withdrawals = withdrawals0, BeaconRoot = Some 0\<rparr>"

text \<open>Lines 197 to 220: the first \<^verbatim>\<open>forkchoiceUpdated\<close>, its response, and \<^verbatim>\<open>getPayload\<close>.\<close>

definition sealPropose ::
    "'e Backend \<Rightarrow> PayloadVersion \<Rightarrow> PayloadAttributes \<Rightarrow> 'e world \<Rightarrow> unit result \<times> 'e world" where
  "sealPropose ops version attrs w =
     (let state = curForkchoiceState (beacon w) in
      case forkchoiceUpdated ops (engine w) state (Some attrs) version False of
        (Inl err, e1) \<Rightarrow> (Err err, called (CallForkchoiceUpdated state (Some attrs) version) e1 w)
      | (Inr fcResponse, e1) \<Rightarrow>
          let w1 = called (CallForkchoiceUpdated state (Some attrs) version) e1 w in
          if fcResponse = STATUS_SYNCING then
            (Err (ErrorString ''chain rewind prevented invocation of payload creation''), w1)
          else if Status (PayloadStatus fcResponse) = VALID \<and> PayloadID fcResponse = None then
            (Ok (), w1)
          else
            (case PayloadID fcResponse of
               None \<Rightarrow> (Panic NilPointerDereference, w1)
             | Some payloadID \<Rightarrow>
                 (case getPayload ops (engine w1) payloadID True of
                    (Inl err, e2) \<Rightarrow> (Err err, called (CallGetPayload payloadID True) e2 w1)
                  | (Inr envelope, e2) \<Rightarrow>
                      sealPayload ops version envelope
                        (called (CallGetPayload payloadID True) e2 w1))))"

text \<open>
  \<^verbatim>\<open>sealBlock(withdrawals, timestamp)\<close>, with the bytes that \<^verbatim>\<open>rand.Read\<close> draws as an
  argument. It gives what the call comes to and the world it leaves.
\<close>

definition sealBlock ::
    "'e Backend \<Rightarrow> Hash \<Rightarrow> Withdrawal list \<Rightarrow> u64 \<Rightarrow> 'e world \<Rightarrow> unit result \<times> 'e world" where
  "sealBlock ops random withdrawals0 timestamp0 w =
     (let timestamp = sealTimestamp (beacon w) timestamp0;
          feeRecipient0 = feeRecipient (beacon w)
      in case resyncGuard ops w of
           Panic p \<Rightarrow> (Panic p, w)
         | Err err \<Rightarrow> (Err err, w)
         | Ok w1 \<Rightarrow>
             (case TxPoolSync ops (engine w1) of
                (Some err, e2) \<Rightarrow>
                  (Err (Wrapped ''failed to sync txpool: '' err), called CallTxPoolSync e2 w1)
              | (None, e2) \<Rightarrow>
                  let w2 = called CallTxPoolSync e2 w1 in
                  (case payloadVersion (LatestFork ops) timestamp of
                     Panic p \<Rightarrow> (Panic p, w2)
                   | Err err \<Rightarrow> (Err err, w2)
                   | Ok version \<Rightarrow>
                       sealPropose ops version
                         (sealAttributes timestamp feeRecipient0 withdrawals0 random) w2)))"

subsection \<open>Commit, Fork and AdjustTime\<close>

text \<open>
  \<^verbatim>\<open>Commit\<close>, with \<^verbatim>\<open>time.Now().Unix()\<close> as an argument; an error of \<^verbatim>\<open>sealBlock\<close> is
  logged and dropped.
\<close>

definition Commit :: "'e Backend \<Rightarrow> Hash \<Rightarrow> u64 \<Rightarrow> 'e world \<Rightarrow> Hash result \<times> 'e world" where
  "Commit ops random now w =
     (case pop (withdrawals (beacon w)) 10 of
        Panic p \<Rightarrow> (Panic p, w)
      | Err err \<Rightarrow> (Err err, w)
      | Ok (withdrawals0, rest) \<Rightarrow>
          (case sealBlock ops random withdrawals0 now
                  (w\<lparr>beacon := (beacon w)\<lparr>withdrawals := rest\<rparr>\<rparr>) of
             (Panic p, w') \<Rightarrow> (Panic p, w')
           | (_, w') \<Rightarrow>
               (case CurrentBlock ops (engine w') of
                  None \<Rightarrow> (Panic NilPointerDereference, w')
                | Some header \<Rightarrow> (Ok (hHash header), w'))))"

definition Fork :: "'e Backend \<Rightarrow> Hash \<Rightarrow> 'e world \<Rightarrow> unit result \<times> 'e world" where
  "Fork ops parentHash w =
     (let w1 = called CallTxPoolSync (snd (TxPoolSync ops (engine w))) w in
      if TxPoolPending ops (engine w1) \<noteq> 0 then (Err (ErrorString ''pending block dirty''), w1)
      else
        (case GetBlockByHash ops (engine w1) parentHash of
           None \<Rightarrow> (Err (ErrorString ''parent not found''), w1)
         | Some parent \<Rightarrow>
             (case SetCanonical ops (engine w1) parent of
                (Some err, e2) \<Rightarrow> (Err err, called (CallSetCanonical parent) e2 w1)
              | (None, e2) \<Rightarrow> (Ok (), called (CallSetCanonical parent) e2 w1))))"

text \<open>
  A \<^verbatim>\<open>time.Duration\<close> is an \<^verbatim>\<open>int64\<close> of nanoseconds, here its value as an integer;
  \<^verbatim>\<open>uint64(adjustment / time.Second)\<close> divides towards zero and converts modulo \<open>2^64\<close>.
\<close>

definition durationSeconds :: "int \<Rightarrow> u64" where
  "durationSeconds adjustment = word_of_int (adjustment sdiv 1000000000)"

definition AdjustTime :: "'e Backend \<Rightarrow> Hash \<Rightarrow> int \<Rightarrow> 'e world \<Rightarrow> unit result \<times> 'e world" where
  "AdjustTime ops random adjustment w =
     (if TxPoolPending ops (engine w) \<noteq> 0 then
        (Err (ErrorString ''could not adjust time on non-empty block''), w)
      else
        (case CurrentBlock ops (engine w) of
           None \<Rightarrow> (Err (ErrorString ''parent not found''), w)
         | Some parent \<Rightarrow>
             (case pop (withdrawals (beacon w)) 10 of
                Panic p \<Rightarrow> (Panic p, w)
              | Err err \<Rightarrow> (Err err, w)
              | Ok (withdrawals0, rest) \<Rightarrow>
                  sealBlock ops random withdrawals0 (Time parent + durationSeconds adjustment)
                    (w\<lparr>beacon := (beacon w)\<lparr>withdrawals := rest\<rparr>\<rparr>))))"

subsection \<open>The driver states that can arise\<close>

text \<open>
  The driver as \<^verbatim>\<open>NewSimulatedBeacon\<close> builds it, and as any call of the file leaves it,
  whatever the call comes to and whatever state the engine is in when the call is made.
\<close>

inductive reachable :: "'e Backend \<Rightarrow> SimulatedBeacon \<Rightarrow> bool" for ops :: "'e Backend" where
  reach_new:
    "NewSimulatedBeacon ops period0 feeRecipient0 e = (Ok c, e', cs) \<Longrightarrow> reachable ops c"
| reach_setFeeRecipient:
    "reachable ops c \<Longrightarrow> reachable ops (setFeeRecipient c feeRecipient0)"
| reach_add:
    "reachable ops c \<Longrightarrow> reachable ops (c\<lparr>withdrawals := snd (add (withdrawals c) x)\<rparr>)"
| reach_sealBlock:
    "reachable ops c \<Longrightarrow>
     sealBlock ops random ws timestamp \<lparr>beacon = c, engine = e, calls = cs\<rparr> = (r, w') \<Longrightarrow>
     reachable ops (beacon w')"
| reach_Commit:
    "reachable ops c \<Longrightarrow>
     Commit ops random now \<lparr>beacon = c, engine = e, calls = cs\<rparr> = (h, w') \<Longrightarrow>
     reachable ops (beacon w')"
| reach_Fork:
    "reachable ops c \<Longrightarrow>
     Fork ops parentHash \<lparr>beacon = c, engine = e, calls = cs\<rparr> = (r, w') \<Longrightarrow>
     reachable ops (beacon w')"
| reach_AdjustTime:
    "reachable ops c \<Longrightarrow>
     AdjustTime ops random adjustment \<lparr>beacon = c, engine = e, calls = cs\<rparr> = (r, w') \<Longrightarrow>
     reachable ops (beacon w')"

subsection \<open>A small engine to run the driver against\<close>

text \<open>
  An engine that does what it is asked: it keeps the canonical chain (head first) and the
  attributes of the payload it is building. A block's hash is its parent's hash plus one.
  \<^verbatim>\<open>forkchoiceUpdated\<close> with attributes starts a build and hands out payload ID 1; without
  attributes it makes the built block the head when the state's head hash names it.
  \<^verbatim>\<open>getPayload\<close> delivers the block on top of the head, with the timestamp, fee recipient
  and nothing else of the attributes.
\<close>

record simEngine =
  simChain :: "Header list"
  simBuilding :: "PayloadAttributes option"
  simPending :: nat

definition simStatus :: "string \<Rightarrow> PayloadStatusV1" where
  "simStatus s = \<lparr>Status = s, Witness = None, LatestValidHash = None, ValidationError = None\<rparr>"

definition simBlock :: "Header \<Rightarrow> Block" where
  "simBlock h = \<lparr>bHash = hHash h, bHeader = h\<rparr>"

definition simPayload :: "Header \<Rightarrow> PayloadAttributes \<Rightarrow> ExecutableData" where
  "simPayload parent attrs =
     \<lparr>ParentHash = hHash parent, FeeRecipient = SuggestedFeeRecipient attrs,
      edNumber = Uint64 (Number parent) + 1, edTimestamp = Timestamp attrs,
      BlockHash = hHash parent + 1\<rparr>"

definition simForkchoiceUpdated ::
    "simEngine \<Rightarrow> ForkchoiceStateV1 \<Rightarrow> PayloadAttributes option \<Rightarrow> PayloadVersion \<Rightarrow> bool
       \<Rightarrow> (error + ForkChoiceResponse) \<times> simEngine" where
  "simForkchoiceUpdated e state attrs version noNotify =
     (case attrs of
        Some a \<Rightarrow>
          (Inr \<lparr>PayloadStatus = simStatus VALID, PayloadID = Some 1\<rparr>, e\<lparr>simBuilding := Some a\<rparr>)
      | None \<Rightarrow>
          (Inr \<lparr>PayloadStatus = simStatus VALID, PayloadID = None\<rparr>,
           (case (simChain e, simBuilding e) of
              (parent # rest, Some a) \<Rightarrow>
                if HeadBlockHash state = hHash parent + 1 then
                  e\<lparr>simChain := \<lparr>hHash = hHash parent + 1, Number = Number parent + 1,
                                  Time = Timestamp a\<rparr> # parent # rest,
                    simBuilding := None\<rparr>
                else e
            | _ \<Rightarrow> e)))"

definition simGetPayload ::
    "simEngine \<Rightarrow> PayloadID \<Rightarrow> bool \<Rightarrow> (error + ExecutionPayloadEnvelope) \<times> simEngine" where
  "simGetPayload e payloadID full =
     (case (simChain e, simBuilding e) of
        (parent # rest, Some a) \<Rightarrow>
          (Inr \<lparr>ExecutionPayload = simPayload parent a, BlobsBundle = None, Requests = None\<rparr>, e)
      | _ \<Rightarrow> (Inl (ErrorString ''Unknown payload''), e))"

definition simOps :: "simEngine Backend" where
  "simOps =
     \<lparr>CurrentBlock = (\<lambda>e. case simChain e of [] \<Rightarrow> None | h # _ \<Rightarrow> Some h),
      GetBlockByNumber =
        (\<lambda>e n. map_option simBlock (find (\<lambda>h. Uint64 (Number h) = n) (simChain e))),
      GetBlockByHash = (\<lambda>e x. map_option simBlock (find (\<lambda>h. hHash h = x) (simChain e))),
      SetCanonical = (\<lambda>e b. (None, e\<lparr>simChain := dropWhile (\<lambda>h. hHash h \<noteq> bHash b) (simChain e)\<rparr>)),
      LatestFork = (\<lambda>t. Cancun),
      TxPoolSync = (\<lambda>e. (None, e)),
      TxPoolPending = simPending,
      forkchoiceUpdated = simForkchoiceUpdated,
      getPayload = simGetPayload,
      newPayload = (\<lambda>e payload blobHashes beaconRoot requests noNotify. (Inr (simStatus VALID), e)),
      CalcBlobHashV1 = (\<lambda>commit. 0)\<rparr>"

text \<open>A chain of the genesis block alone, and the driver built on it.\<close>

definition simGenesis :: Header where
  "simGenesis = \<lparr>hHash = 1, Number = 0, Time = 0\<rparr>"

definition simStart :: simEngine where
  "simStart = \<lparr>simChain = [simGenesis], simBuilding = None, simPending = 0\<rparr>"

definition simBeacon :: SimulatedBeacon where
  "simBeacon =
     \<lparr>period = 0, withdrawals = [], feeRecipient = 0,
      curForkchoiceState = \<lparr>HeadBlockHash = 1, SafeBlockHash = 1, FinalizedBlockHash = 1\<rparr>,
      lastBlockTime = 0\<rparr>"

definition simWorld :: "simEngine world" where
  "simWorld = \<lparr>beacon = simBeacon, engine = simStart, calls = []\<rparr>"

text \<open>The same engine with a pool that fails to sync.\<close>

definition syncFailOps :: "simEngine Backend" where
  "syncFailOps = simOps\<lparr>TxPoolSync := (\<lambda>e. (Some (ErrorString ''pool closed''), e))\<rparr>"

text \<open>The same engine refusing the \<^verbatim>\<open>forkchoiceUpdated\<close> that has no attributes.\<close>

definition canonFailOps :: "simEngine Backend" where
  "canonFailOps =
     simOps\<lparr>forkchoiceUpdated :=
       (\<lambda>e state attrs version noNotify.
          case attrs of
            None \<Rightarrow> (Inl (ErrorString ''forkchoice rejected''), e)
          | Some a \<Rightarrow> simForkchoiceUpdated e state attrs version noNotify)\<rparr>"

text \<open>The same engine on a chain that has lost its blocks below the head.\<close>

definition rewoundOps :: "simEngine Backend" where
  "rewoundOps = simOps\<lparr>GetBlockByNumber := (\<lambda>e n. None)\<rparr>"

text \<open>
  The same engine answering every \<^verbatim>\<open>forkchoiceUpdated\<close> with a given status and no
  payload ID.
\<close>

definition statusOps :: "string \<Rightarrow> simEngine Backend" where
  "statusOps s =
     simOps\<lparr>forkchoiceUpdated :=
       (\<lambda>e state attrs version noNotify.
          (Inr \<lparr>PayloadStatus = simStatus s, PayloadID = None\<rparr>, e))\<rparr>"

text \<open>The same engine on a chain that refuses to make a block canonical.\<close>

definition canonicalFailOps :: "simEngine Backend" where
  "canonicalFailOps = simOps\<lparr>SetCanonical := (\<lambda>e b. (Some (ErrorString ''missing state''), e))\<rparr>"

text \<open>A driver whose cached head (hash 9) is not the head of the chain.\<close>

definition staleWorld :: "simEngine world" where
  "staleWorld =
     simWorld\<lparr>beacon := simBeacon\<lparr>curForkchoiceState :=
       \<lparr>HeadBlockHash = 9, SafeBlockHash = 9, FinalizedBlockHash = 9\<rparr>\<rparr>\<rparr>"

section \<open>The finality rule\<close>

lemma pred_div_epoch:
  fixes k :: nat
  assumes "k mod 32 \<noteq> 0"
  shows "(k - 1) div 32 = k div 32"
proof -
  have k: "k = k mod 32 + k div 32 * 32" by simp
  have "k mod 32 \<ge> 1" using assms by simp
  then have "k - 1 = (k mod 32 - 1) + k div 32 * 32" using k by linarith
  then have "(k - 1) div 32 = ((k mod 32 - 1) + k div 32 * 32) div 32" by simp
  also have "\<dots> = (k mod 32 - 1) div 32 + k div 32" by simp
  also have "(k mod 32 - 1) div 32 = 0"
    by (rule div_less) (simp add: less_imp_diff_less)
  finally show ?thesis by simp
qed

lemma unat_mult_epoch: "unat (a * 32 :: u64) = (unat a * 32) mod 2 ^ 64"
  by (simp add: unat_word_ariths)

lemma unat_finalizedNumber: "unat (finalizedNumber n) = unat n div 32 * 32"
proof (cases "n mod 32 = 0")
  case True
  then have "unat (n mod 32) = 0" by simp
  then have "unat n mod 32 = 0" by (simp add: unat_mod)
  then have "unat n = unat n div 32 * 32" by (simp add: mod_eq_0_iff_dvd)
  with True show ?thesis by (simp add: finalizedNumber_def devEpochLength_def)
next
  case False
  then have nz: "n \<noteq> 0" by auto
  from False have "unat (n mod 32) \<noteq> 0" by (simp add: unat_eq_zero)
  then have m: "unat n mod 32 \<noteq> 0" by (simp add: unat_mod)
  have lt: "unat n < 2 ^ 64" using unsigned_less [of n, where ?'a = nat] by simp
  have a: "unat ((n - 1) div 32) = (unat n - 1) div 32"
    using nz by (simp add: unat_div unat_minus_one)
  have "(unat n - 1) div 32 * 32 \<le> unat n - 1" by simp
  then have b: "(unat n - 1) div 32 * 32 < 2 ^ 64" using lt by linarith
  have c: "(unat n - 1) div 32 = unat n div 32" using m by (rule pred_div_epoch)
  have "unat ((n - 1) div 32 * 32) = (unat ((n - 1) div 32) * 32) mod 2 ^ 64"
    by (rule unat_mult_epoch)
  also have "\<dots> = ((unat n - 1) div 32 * 32) mod 2 ^ 64"
    by (simp only: a)
  also have "\<dots> = (unat n - 1) div 32 * 32" using b by simp
  finally show ?thesis using False c by (simp add: finalizedNumber_def devEpochLength_def)
qed

lemma unat_finalizedNumber_cases:
  "unat (finalizedNumber n) =
     (if unat n mod 32 = 0 then unat n else (unat n - 1) div 32 * 32)"
proof (cases "unat n mod 32 = 0")
  case True
  then have "unat n div 32 * 32 = unat n" by (simp add: mod_eq_0_iff_dvd)
  with True show ?thesis by (simp add: unat_finalizedNumber)
next
  case False
  then show ?thesis using pred_div_epoch [of "unat n"] by (simp add: unat_finalizedNumber)
qed

lemma finalizedNumber_le: "finalizedNumber n \<le> n"
  by (simp add: word_le_nat_alt unat_finalizedNumber)

lemma finalizedNumber_mod: "finalizedNumber n mod devEpochLength = 0"
proof -
  have "unat (finalizedNumber n mod 32) = 0"
    by (simp add: unat_mod unat_finalizedNumber)
  then show ?thesis by (simp add: unat_eq_zero devEpochLength_def)
qed

lemma finalizedNumber_idem: "finalizedNumber (finalizedNumber n) = finalizedNumber n"
  using finalizedNumber_mod [of n] by (simp add: finalizedNumber_def [of "finalizedNumber n"])

lemma finalizedNumber_greatest:
  assumes "32 dvd m" and "m \<le> unat n"
  shows "m \<le> unat (finalizedNumber n)"
proof -
  from assms(1) obtain j where j: "m = 32 * j" ..
  then have "(32 * j) div 32 \<le> unat n div 32" using assms(2) by (intro div_le_mono) simp
  then have "j \<le> unat n div 32" by simp
  then show ?thesis using j by (simp add: unat_finalizedNumber)
qed

lemma pop_nat: "pop q (int n) = Ok (take (min n (length q)) q, drop (min n (length q)) q)"
  by (simp add: pop_def Let_def min_def)

lemma pop_negative: "n < 0 \<Longrightarrow> pop q n = Panic SliceBoundsOutOfRange"
  by (simp add: pop_def Let_def min_def)

lemma runQueue_conserves:
  "concat (popped r) @ queue r = added r \<Longrightarrow>
   \<exists>r'. runQueue r ops = Ok r' \<and> concat (popped r') @ queue r' = added r'"
proof (induction ops arbitrary: r)
  case Nil
  then show ?case by simp
next
  case (Cons x ops)
  show ?case
  proof (cases x)
    case (QAdd y)
    have "concat (popped r) @ (queue r @ [y]) = added r @ [y]"
      using Cons.prems by (simp flip: append_assoc)
    then show ?thesis using Cons.IH [of "r\<lparr>queue := queue r @ [y], added := added r @ [y]\<rparr>"] QAdd
      by (simp add: add_def)
  next
    case (QPop n)
    let ?k = "min n (length (queue r))"
    let ?r = "r\<lparr>queue := drop ?k (queue r), popped := popped r @ [take ?k (queue r)]\<rparr>"
    have "concat (popped ?r) @ queue ?r = added ?r"
      using Cons.prems by simp
    from Cons.IH [OF this] show ?thesis using QPop by (simp add: pop_nat)
  qed
qed

text \<open>
  C5. For every block number, the finalized number that \<^verbatim>\<open>finalizedBlockHash\<close> computes and
  looks up is the number itself when it is a multiple of 32 and \<open>floor((number - 1) / 32) * 32\<close>
  otherwise, read as natural numbers (the \<^verbatim>\<open>uint64\<close> arithmetic never wraps); it is the
  greatest multiple of 32 that is at most the number.
\<close>

theorem finalizedNumber_greatest_multiple:
  "finalizedBlockHash ops e n = map_option bHash (GetBlockByNumber ops e (finalizedNumber n)) \<and>
   unat (finalizedNumber n) =
     (if unat n mod 32 = 0 then unat n else (unat n - 1) div 32 * 32) \<and>
   32 dvd unat (finalizedNumber n) \<and>
   unat (finalizedNumber n) \<le> unat n \<and>
   (\<forall>m. 32 dvd m \<longrightarrow> m \<le> unat n \<longrightarrow> m \<le> unat (finalizedNumber n))"
proof -
  have "finalizedBlockHash ops e n = map_option bHash (GetBlockByNumber ops e (finalizedNumber n))"
    by (simp add: finalizedBlockHash_def split: option.splits)
  moreover have "32 dvd unat (finalizedNumber n)"
    by (simp add: unat_finalizedNumber)
  moreover have "unat (finalizedNumber n) \<le> unat n"
    by (simp add: unat_finalizedNumber)
  ultimately show ?thesis
    using unat_finalizedNumber_cases [of n] finalizedNumber_greatest [of _ n] by blast
qed

theorem finalizedNumber_greatest_multiple_witness:
  "unat (finalizedNumber 45) = 32 \<and> (32::nat) dvd 32 \<and> 32 \<le> unat (45 :: u64) \<and>
   (64::nat) dvd 64 \<and> \<not> 64 \<le> unat (45 :: u64)"
proof -
  have "\<forall>m. 32 dvd m \<longrightarrow> m \<le> unat (45 :: u64) \<longrightarrow> m \<le> unat (finalizedNumber 45)"
    using finalizedNumber_greatest_multiple [of simOps simStart 45] by blast
  then have "(32::nat) dvd 32 \<longrightarrow> 32 \<le> unat (45 :: u64) \<longrightarrow> 32 \<le> unat (finalizedNumber 45)"
    by blast
  moreover have "unat (finalizedNumber 45) = 32"
    by (simp add: finalizedNumber_def devEpochLength_def)
  ultimately show ?thesis by simp
qed

text \<open>
  C6. With \<open>f\<close> the finalized number for epoch length 32: for every block number \<open>k\<close>,
  \<open>f k \<le> k\<close>, \<open>f k\<close> is a multiple of 32, and \<open>f (f k) = f k\<close>.
\<close>

theorem finalizedNumber_le_multiple_idempotent:
  "finalizedNumber k \<le> k \<and>
   finalizedNumber k mod devEpochLength = 0 \<and>
   32 dvd unat (finalizedNumber k) \<and>
   finalizedNumber (finalizedNumber k) = finalizedNumber k"
  using finalizedNumber_le [of k] finalizedNumber_mod [of k] finalizedNumber_idem [of k]
  by (simp add: unat_finalizedNumber)

section \<open>The withdrawal queue\<close>

text \<open>
  C7. For every queue built by \<^verbatim>\<open>add\<close> and every count \<open>n\<close>, \<^verbatim>\<open>pop(n)\<close> returns exactly
  the first \<open>min(n, length)\<close> withdrawals in arrival order and leaves the rest, so it returns
  at most \<open>n\<close> elements and at most those queued; \<^verbatim>\<open>add\<close> appends at the tail; and for
  every run of adds and pops from the empty queue, what was popped, in order, followed by
  what is left in the queue is what was added. A count is a natural number here; the Go
  parameter is an \<^verbatim>\<open>int\<close>, and \<open>pop_negative\<close> above shows the panic on a negative one.
\<close>

theorem pop_fifo:
  "pop q (int n) = Ok (take (min n (length q)) q, drop (min n (length q)) q) \<and>
   length (take (min n (length q)) q) \<le> n \<and>
   length (take (min n (length q)) q) \<le> length q \<and>
   take (min n (length q)) q @ drop (min n (length q)) q = q \<and>
   add q x = (None, q @ [x]) \<and>
   (\<exists>r. runQueue emptyRun ops = Ok r \<and> concat (popped r) @ queue r = added r)"
proof -
  have "concat (popped emptyRun) @ queue emptyRun = added emptyRun"
    by (simp add: emptyRun_def)
  from runQueue_conserves [OF this, of ops] show ?thesis
    by (simp add: pop_nat add_def)
qed

end
